theory Spec2Isabelle
  imports Main "HOL-Library.Word"
begin

section \<open>The documentation viewer \<open>docs/view.py\<close>\<close>

text \<open>
  The script is a request handler \<open>DocHandler\<close> with one method, \<open>do_GET\<close>, and a
  main block. Both are embedded below statement by statement. Everything the script
  calls belongs to the Python standard library; each call is modelled by a function of
  the same name that does what the library's source does, on an explicit record of the
  process and its environment.
\<close>

subsection \<open>The process and its environment\<close>

type_synonym byte = "8 word"

text \<open>
  What the operating system finds under a path: a file the process can read, a file
  it is not permitted to read (\<open>Locked\<close>), or a directory.
\<close>

datatype node = File "byte list" | Locked "byte list" | Dir

datatype py_error =
    FileNotFoundError
  | NotADirectoryError
  | IsADirectoryError
  | PermissionError
  | AddressInUse

text \<open>
  \<open>script\<close> is the value of \<open>__file__\<close>; \<open>fs\<close> is the name resolution of the operating
  system: what it finds under an absolute path string; \<open>modified\<close> is the modification
  time it reports for a path, formatted as the HTTP library formats it; \<open>clock\<close> and
  \<open>server_version\<close> are the strings the HTTP library stamps on every response
  (\<open>date_time_string()\<close>, \<open>version_string()\<close>); \<open>listening\<close> is the server socket.
  Standard error (the request log, tracebacks) is not part of the model.
\<close>

record world =
  script :: string
  cwd :: string
  fs :: "string \<Rightarrow> node option"
  modified :: "string \<Rightarrow> string"
  clock :: string
  server_version :: string
  browser_works :: bool
  port_busy :: "nat \<Rightarrow> bool"
  listening :: "(string \<times> nat) option"

text \<open>
  What a handler has put on the connection: the status line and the headers, which
  the library buffers and writes out when \<open>end_headers\<close> is called (\<open>headers_done\<close>),
  the body, and the exception that ended the handler, if any.
\<close>

record reply =
  status :: nat
  headers :: "(string \<times> string) list"
  headers_done :: bool
  body :: "byte list"
  raised :: "py_error option"

text \<open>
  The method of the library's handler only reads the state of the process; the method
  of \<open>DocHandler\<close>, the code under study, returns the state it leaves behind.
\<close>

type_synonym handler = "world \<Rightarrow> string \<Rightarrow> reply"

type_synonym request_handler = "world \<Rightarrow> string \<Rightarrow> reply \<times> world"

subsection \<open>Paths and files (\<open>os\<close>, \<open>os.path\<close>, \<open>open\<close>)\<close>

text \<open>
  Paths are POSIX paths (\<open>os.path\<close> is \<open>posixpath\<close>). \<open>dirname\<close> is the part of \<open>p\<close> up
  to and including the last slash, with the trailing slashes removed unless it consists
  of slashes only.
\<close>

definition os_path_dirname :: "string \<Rightarrow> string" where
  "os_path_dirname p =
     (let head = rev (dropWhile (\<lambda>c. c \<noteq> CHR ''/'') (rev p))
      in if head \<noteq> [] \<and> (\<exists>c \<in> set head. c \<noteq> CHR ''/'')
         then rev (dropWhile (\<lambda>c. c = CHR ''/'') (rev head))
         else head)"

text \<open>\<open>posixpath.join\<close> of two components.\<close>

definition os_path_join :: "string \<Rightarrow> string \<Rightarrow> string" where
  "os_path_join a b =
     (if take 1 b = ''/'' then b
      else if a = [] \<or> last a = CHR ''/'' then a @ b
      else a @ ''/'' @ b)"

text \<open>
  The operating system resolves a relative path against the working directory, finds
  nothing under the empty path, and finds a directory or nothing under a path that
  ends in a slash.
\<close>

definition abs_path :: "string \<Rightarrow> string \<Rightarrow> string" where
  "abs_path d p = (if take 1 p = ''/'' then p else d @ ''/'' @ p)"

definition lookup :: "world \<Rightarrow> string \<Rightarrow> node option" where
  "lookup w p =
     (if p = [] then None
      else case fs w (abs_path (cwd w) p) of
             None \<Rightarrow> None
           | Some n \<Rightarrow> if n = Dir \<or> last p \<noteq> CHR ''/'' then Some n else None)"

definition os_path_exists :: "world \<Rightarrow> string \<Rightarrow> bool" where
  "os_path_exists w p = (lookup w p \<noteq> None)"

definition os_path_isdir :: "world \<Rightarrow> string \<Rightarrow> bool" where
  "os_path_isdir w p = (lookup w p = Some Dir)"

definition os_path_isfile :: "world \<Rightarrow> string \<Rightarrow> bool" where
  "os_path_isfile w p = (lookup w p \<noteq> None \<and> lookup w p \<noteq> Some Dir)"

definition os_chdir :: "world \<Rightarrow> string \<Rightarrow> py_error + world" where
  "os_chdir w p =
     (case lookup w p of
        None \<Rightarrow> Inl FileNotFoundError
      | Some (File content) \<Rightarrow> Inl NotADirectoryError
      | Some (Locked content) \<Rightarrow> Inl NotADirectoryError
      | Some Dir \<Rightarrow> Inr (w\<lparr>cwd := abs_path (cwd w) p\<rparr>))"

text \<open>\<open>open(p, 'rb').read()\<close>\<close>

definition open_rb :: "world \<Rightarrow> string \<Rightarrow> py_error + byte list" where
  "open_rb w p =
     (case lookup w p of
        None \<Rightarrow> Inl FileNotFoundError
      | Some Dir \<Rightarrow> Inl IsADirectoryError
      | Some (Locked content) \<Rightarrow> Inl PermissionError
      | Some (File content) \<Rightarrow> Inr content)"

text \<open>\<open>str\<close> of a non-negative integer.\<close>

fun str_nat :: "nat \<Rightarrow> string" where
  "str_nat n =
     (if n < 10 then [''0123456789'' ! n]
      else str_nat (n div 10) @ [''0123456789'' ! (n mod 10)])"

subsection \<open>Writing a response (\<open>http.server.BaseHTTPRequestHandler\<close>)\<close>

text \<open>
  \<open>send_response\<close> puts the status line into the buffer, followed by the library's own
  \<open>Server\<close> and \<open>Date\<close> headers; \<open>send_header\<close> adds one header; \<open>end_headers\<close> closes the
  header block and writes the buffer to the connection; \<open>wfile.write\<close> appends to the
  body.
\<close>

definition send_response :: "world \<Rightarrow> nat \<Rightarrow> reply" where
  "send_response w code =
     \<lparr>status = code,
      headers = [(''Server'', server_version w), (''Date'', clock w)],
      headers_done = False, body = [], raised = None\<rparr>"

definition send_header :: "string \<Rightarrow> string \<Rightarrow> reply \<Rightarrow> reply" where
  "send_header keyword val r = r\<lparr>headers := headers r @ [(keyword, val)]\<rparr>"

definition end_headers :: "reply \<Rightarrow> reply" where
  "end_headers r = r\<lparr>headers_done := True\<rparr>"

definition wfile_write :: "byte list \<Rightarrow> reply \<Rightarrow> reply" where
  "wfile_write content r = r\<lparr>body := body r @ content\<rparr>"

subsection \<open>\<open>DocHandler.do_GET\<close>\<close>

text \<open>
  \<open>os.path.join(os.path.dirname(__file__), '../dist/gitcells-docs.html')\<close>, computed
  alike in \<open>do_GET\<close> and in the main block.
\<close>

definition html_path :: "world \<Rightarrow> string" where
  "html_path w = os_path_join (os_path_dirname (script w)) ''../dist/gitcells-docs.html''"

text \<open>
  The first argument is the method of the base class, \<open>super().do_GET\<close> of
  \<open>http.server.SimpleHTTPRequestHandler\<close>; \<open>path\<close> is \<open>self.path\<close>. An exception raised
  by \<open>open\<close> leaves the handler after the headers are out; it is recorded in \<open>raised\<close>.
  The second component of the result is the state of the process after the call.
\<close>

definition do_GET :: "handler \<Rightarrow> request_handler" where
  "do_GET super_do_GET w path =
     (if path = ''/'' \<or> path = ''/index.html'' then
        (if os_path_exists w (html_path w) then
           (let r = end_headers
                      (send_header ''Content-type'' ''text/html'' (send_response w 200))
            in case open_rb w (html_path w) of
                 Inl e \<Rightarrow> (r\<lparr>raised := Some e\<rparr>, w)
               | Inr content \<Rightarrow> (wfile_write content r, w))
         else (super_do_GET w path, w))
      else (super_do_GET w path, w))"

subsection \<open>The static responder (\<open>http.server.SimpleHTTPRequestHandler\<close>)\<close>

text \<open>
  The base class is the library's, not the repository's; it is modelled from its source
  (\<open>http/server.py\<close>, \<open>posixpath.py\<close>), for a GET request without conditional headers.
  What it takes from other parts of the library is a parameter: the percent-decoding
  of a path (\<open>urllib.parse.unquote\<close>, followed by the encoding of file names), the table
  of content types, the splitting of a URL, the page of a directory listing and the
  page of an error.
\<close>

record library =
  unquote :: "string \<Rightarrow> string"
  guess_type :: "string \<Rightarrow> string"
  url_path :: "string \<Rightarrow> string"
  redirect_url :: "string \<Rightarrow> string"
  list_directory :: "world \<Rightarrow> string \<Rightarrow> reply"
  error_page :: "nat \<Rightarrow> string \<Rightarrow> byte list"

text \<open>\<open>s.split(c)\<close>, \<open>c.join(words)\<close>, \<open>s.rstrip()\<close> and \<open>s.endswith('/')\<close>.\<close>

fun split_on :: "char \<Rightarrow> string \<Rightarrow> string list" where
  "split_on c [] = [[]]"
| "split_on c (x # xs) =
     (if x = c then [] # split_on c xs
      else case split_on c xs of
             [] \<Rightarrow> [[x]]
           | word # words \<Rightarrow> (x # word) # words)"

fun join_with :: "char \<Rightarrow> string list \<Rightarrow> string" where
  "join_with c [] = []"
| "join_with c [word] = word"
| "join_with c (word # words) = word @ c # join_with c words"

definition isspace :: "char \<Rightarrow> bool" where
  "isspace c =
     (c \<in> {CHR 0x09, CHR 0x0A, CHR 0x0B, CHR 0x0C, CHR 0x0D, CHR 0x1C, CHR 0x1D,
            CHR 0x1E, CHR 0x1F, CHR 0x20, CHR 0x85, CHR 0xA0})"

definition rstrip :: "string \<Rightarrow> string" where
  "rstrip s = rev (dropWhile isspace (rev s))"

definition endswith_slash :: "string \<Rightarrow> bool" where
  "endswith_slash s = (s \<noteq> [] \<and> last s = CHR ''/'')"

text \<open>\<open>posixpath.normpath\<close>\<close>

definition normpath_step :: "nat \<Rightarrow> string list \<Rightarrow> string \<Rightarrow> string list" where
  "normpath_step initial_slashes new_comps part =
     (if part = [] \<or> part = ''.'' then new_comps
      else if part \<noteq> ''..'' \<or> (initial_slashes = 0 \<and> new_comps = [])
              \<or> (new_comps \<noteq> [] \<and> last new_comps = ''..'')
           then new_comps @ [part]
      else if new_comps \<noteq> [] then butlast new_comps
      else new_comps)"

definition normpath :: "string \<Rightarrow> string" where
  "normpath path =
     (if path = [] then ''.''
      else
        (let initial_slashes =
               (if take 1 path = ''/''
                then (if take 2 path = ''//'' \<and> take 3 path \<noteq> ''///'' then 2 else 1)
                else (0::nat));
             comps = foldl (normpath_step initial_slashes) [] (split_on CHR ''/'' path);
             joined = replicate initial_slashes CHR ''/'' @ join_with CHR ''/'' comps
         in if joined = [] then ''.'' else joined))"

text \<open>
  \<open>translate_path\<close>: query and fragment are dropped, the path is decoded and
  normalised, and its components that are plain names are appended one by one to the
  directory served, which is the working directory.
\<close>

definition plain_name :: "string \<Rightarrow> bool" where
  "plain_name word = (\<not> (os_path_dirname word \<noteq> [] \<or> word = ''.'' \<or> word = ''..''))"

definition translate_path :: "library \<Rightarrow> world \<Rightarrow> string \<Rightarrow> string" where
  "translate_path lib w path =
     (let path1 = takeWhile (\<lambda>c. c \<noteq> CHR ''#'') (takeWhile (\<lambda>c. c \<noteq> CHR ''?'') path);
          trailing_slash = endswith_slash (rstrip path1);
          words = filter (\<lambda>word. word \<noteq> [])
                    (split_on CHR ''/'' (normpath (unquote lib path1)));
          p = foldl (\<lambda>p word. if plain_name word then os_path_join p word else p)
                (cwd w) words
      in if trailing_slash then p @ ''/'' else p)"

text \<open>\<open>send_error\<close>: the error status, and its page unless the status allows no body.\<close>

definition send_error :: "library \<Rightarrow> world \<Rightarrow> nat \<Rightarrow> string \<Rightarrow> reply" where
  "send_error lib w code message =
     (let r = send_header ''Connection'' ''close'' (send_response w code)
      in if 200 \<le> code \<and> code \<noteq> 204 \<and> code \<noteq> 205 \<and> code \<noteq> 304 then
           (let page = error_page lib code message
            in wfile_write page
                 (end_headers
                   (send_header ''Content-Length'' (str_nat (length page))
                     (send_header ''Content-Type'' ''text/html;charset=utf-8'' r))))
         else end_headers r)"

text \<open>
  The second half of \<open>send_head\<close>, followed by \<open>copyfile\<close>: a path that ends in a slash
  or cannot be opened is not found; a file is sent with its type, length and
  modification time.
\<close>

definition send_file :: "library \<Rightarrow> world \<Rightarrow> string \<Rightarrow> reply" where
  "send_file lib w p =
     (if endswith_slash p then send_error lib w 404 ''File not found''
      else case open_rb w p of
             Inl e \<Rightarrow> send_error lib w 404 ''File not found''
           | Inr content \<Rightarrow>
               wfile_write content
                 (end_headers
                   (send_header ''Last-Modified'' (modified w p)
                     (send_header ''Content-Length'' (str_nat (length content))
                       (send_header ''Content-type'' (guess_type lib p)
                         (send_response w 200))))))"

text \<open>
  \<open>SimpleHTTPRequestHandler.do_GET\<close>: a directory is answered with a redirection when
  the URL lacks the final slash, with its \<open>index.html\<close> or \<open>index.htm\<close> when there is
  one, and with its listing otherwise.
\<close>

definition SimpleHTTPRequestHandler_do_GET :: "library \<Rightarrow> handler" where
  "SimpleHTTPRequestHandler_do_GET lib w path =
     (let p = translate_path lib w path
      in if os_path_isdir w p then
           (if \<not> endswith_slash (url_path lib path) then
              end_headers
                (send_header ''Content-Length'' ''0''
                  (send_header ''Location'' (redirect_url lib path) (send_response w 301)))
            else if os_path_isfile w (os_path_join p ''index.html'') then
              send_file lib w (os_path_join p ''index.html'')
            else if os_path_isfile w (os_path_join p ''index.htm'') then
              send_file lib w (os_path_join p ''index.htm'')
            else list_directory lib w p)
         else send_file lib w p)"

subsection \<open>The serving loop (\<open>socketserver.TCPServer\<close>)\<close>

text \<open>
  What the process does that can be seen from outside, in order: lines printed on
  standard output, the URL handed to the browser, the socket bound and closed, and the
  response to each request, with the path of the request as the client sent it.
\<close>

datatype action =
    Print string
  | OpenBrowser string
  | Bind string nat
  | Reply string reply
  | Close

text \<open>
  What reaches the process while it serves: a GET request with its raw path, the
  interrupt signal, and the environment changing under it (a file written or removed,
  the clock moving on).
\<close>

datatype event =
    Request string
  | Interrupt
  | FsUpdate string "node option"
  | Tick string

definition TCPServer :: "world \<Rightarrow> string \<Rightarrow> nat \<Rightarrow> py_error + world" where
  "TCPServer w host port =
     (if port_busy w port then Inl AddressInUse
      else Inr (w\<lparr>listening := Some (host, port)\<rparr>))"

definition server_close :: "world \<Rightarrow> world" where
  "server_close w = w\<lparr>listening := None\<rparr>"

text \<open>
  \<open>parse_request\<close> sets \<open>self.path\<close> from the request line: a path that starts with two
  slashes has its leading slashes reduced to one.
\<close>

definition parse_request :: "string \<Rightarrow> string" where
  "parse_request raw =
     (if take 2 raw = ''//'' then CHR ''/'' # dropWhile (\<lambda>c. c = CHR ''/'') raw else raw)"

text \<open>
  \<open>serve_forever\<close> handles one request after the other, each by \<open>parse_request\<close> and
  then the handler's \<open>do_GET\<close> on \<open>self.path\<close>, and has no exit of its own: it is left
  only by the \<open>KeyboardInterrupt\<close> that the interrupt signal raises. The result is what
  was done on the events so far, the state reached, and whether the interrupt was
  raised; \<open>False\<close> means that the loop is still waiting for the next request. An
  exception raised inside a handler is caught by the server, which goes on with the
  next request.
\<close>

fun serve_forever ::
  "request_handler \<Rightarrow> world \<Rightarrow> event list \<Rightarrow> action list \<times> world \<times> bool" where
  "serve_forever h w [] = ([], w, False)"
| "serve_forever h w (Interrupt # evs) = ([], w, True)"
| "serve_forever h w (Request raw # evs) =
     (case h w (parse_request raw) of
        (r, w1) \<Rightarrow>
          (case serve_forever h w1 evs of
             (t, w', interrupted) \<Rightarrow> (Reply raw r # t, w', interrupted)))"
| "serve_forever h w (FsUpdate p n # evs) =
     serve_forever h (w\<lparr>fs := (fs w)(p := n)\<rparr>) evs"
| "serve_forever h w (Tick now # evs) = serve_forever h (w\<lparr>clock := now\<rparr>) evs"

subsection \<open>The main block\<close>

definition PORT :: nat where
  "PORT = 8080"

text \<open>The printed lines, as the UTF-8 bytes of the source file.\<close>

definition line_title :: string where
  "line_title =
     [CHR 0xF0, CHR 0x9F, CHR 0x93, CHR 0x9A] @ '' GitCells Documentation Viewer''"

definition line_starting :: string where
  "line_starting =
     [CHR 0xF0, CHR 0x9F, CHR 0x8C, CHR 0x90]
       @ '' Starting server at http://localhost:'' @ str_nat PORT"

definition line_press :: string where
  "line_press = ''Press Ctrl+C to stop'' @ [CHR 0x0A]"

definition line_not_built :: string where
  "line_not_built =
     [CHR 0xE2, CHR 0x9A, CHR 0xA0, CHR 0xEF, CHR 0xB8, CHR 0x8F]
       @ ''  Documentation not built yet!''"

definition line_shutdown :: string where
  "line_shutdown =
     [CHR 0x0A, CHR 0xF0, CHR 0x9F, CHR 0x91, CHR 0x8B] @ '' Shutting down...''"

definition url :: string where
  "url = ''http://localhost:'' @ str_nat PORT"

text \<open>\<open>webbrowser.open\<close> reports whether a browser could be launched.\<close>

definition webbrowser_open :: "world \<Rightarrow> string \<Rightarrow> bool" where
  "webbrowser_open w u = browser_works w"

text \<open>
  How a run ends: \<open>Exit n\<close> is the interpreter leaving with status \<open>n\<close> (\<open>exit(n)\<close>, or
  \<open>0\<close> at the end of the script), \<open>Uncaught e\<close> is an exception nobody handles, on
  which the interpreter leaves with status 1, \<open>Serving\<close> is the process still inside
  \<open>serve_forever\<close>.
\<close>

datatype outcome = Exit nat | Uncaught py_error | Serving


record run =
  outcome :: outcome
  trace :: "action list"
  state :: world

text \<open>
  The main block, on the command line \<open>argv\<close> (which it never reads), the state the
  process starts in, and the events that reach it once it serves.
\<close>

definition main :: "handler \<Rightarrow> string list \<Rightarrow> world \<Rightarrow> event list \<Rightarrow> run" where
  "main super_do_GET argv w0 evs =
     (case os_chdir w0 (os_path_dirname (script w0)) of
        Inl e \<Rightarrow> \<lparr>outcome = Uncaught e, trace = [], state = w0\<rparr>
      | Inr w1 \<Rightarrow>
          (let banner = [Print line_title, Print line_starting, Print line_press]
           in if \<not> os_path_exists w1 (html_path w1) then
                \<lparr>outcome = Exit 1,
                 trace = banner @
                   [Print line_not_built,
                    Print ''Run one of these commands first:'',
                    Print ''  - node docs/build.js'',
                    Print ''  - ./scripts/build-docs.sh''],
                 state = w1\<rparr>
              else
                (let opened = webbrowser_open w1 url;
                     started = banner @ [OpenBrowser url]
                 in case TCPServer w1 [] PORT of
                      Inl e \<Rightarrow> \<lparr>outcome = Uncaught e, trace = started, state = w1\<rparr>
                    | Inr w2 \<Rightarrow>
                        (case serve_forever (do_GET super_do_GET) w2 evs of
                           (served, w3, interrupted) \<Rightarrow>
                             if interrupted then
                               \<lparr>outcome = Exit 0,
                                trace = started @ [Bind [] PORT] @ served
                                          @ [Print line_shutdown, Close],
                                state = server_close w3\<rparr>
                             else
                               \<lparr>outcome = Serving,
                                trace = started @ [Bind [] PORT] @ served,
                                state = w3\<rparr>))))"

subsection \<open>Reading a run\<close>

text \<open>The paths of the requests among the events, and of the replies in a trace.\<close>

fun requested :: "event list \<Rightarrow> string list" where
  "requested [] = []"
| "requested (Request path # evs) = path # requested evs"
| "requested (ev # evs) = requested evs"

fun answered :: "action list \<Rightarrow> string list" where
  "answered [] = []"
| "answered (Reply path r # as) = path # answered as"
| "answered (a # as) = answered as"

subsection \<open>A concrete installation\<close>

text \<open>
  The repository checked out at \<open>/repo\<close>, the documentation built, the viewer started
  from another directory on a machine without a browser.
\<close>

definition demo_html :: "byte list" where
  "demo_html = [60, 104, 49, 62, 255, 0, 10]"

definition demo_fs :: "string \<Rightarrow> node option" where
  "demo_fs =
     (\<lambda>p. if p = ''/repo/docs'' \<or> p = ''/repo/docs/'' then Some Dir
          else if p = ''/repo/docs/../dist/gitcells-docs.html'' then Some (File demo_html)
          else if p = ''/repo/docs/view.py'' then Some (File [35, 33])
          else if p = ''/repo/docs/notes.txt'' then Some (Locked [110])
          else None)"

definition demo :: world where
  "demo =
     \<lparr>script = ''/repo/docs/view.py'', cwd = ''/home/user'', fs = demo_fs,
      modified = (\<lambda>p. ''Mon, 02 Nov 2026 09:00:00 GMT''),
      clock = ''Tue, 03 Nov 2026 17:08:00 GMT'',
      server_version = ''SimpleHTTP/0.6 Python/3.12.3'',
      browser_works = False, port_busy = (\<lambda>port. False), listening = None\<rparr>"


text \<open>The process of \<open>demo\<close> once it serves: directory changed, socket bound.\<close>

definition demo_serving :: world where
  "demo_serving = demo\<lparr>cwd := ''/repo/docs'', listening := Some ([], 8080)\<rparr>"







text \<open>
  A library for the installation. Its percent-decoding replaces every \<open>%\<close> that two
  hexadecimal digits follow by the byte they denote, which is what \<open>unquote\<close> does
  where the decoded bytes are well-formed UTF-8; the listing and the error page are
  single bytes.
\<close>

fun hexval :: "char \<Rightarrow> nat option" where
  "hexval c =
     (if c \<in> set ''0123456789'' then Some (of_char c - 48)
      else if c \<in> set ''abcdef'' then Some (of_char c - 87)
      else if c \<in> set ''ABCDEF'' then Some (of_char c - 55)
      else None)"

fun percent_decode :: "string \<Rightarrow> string" where
  "percent_decode (c # a # b # rest) =
     (if c = CHR ''%'' then
        (case (hexval a, hexval b) of
           (Some x, Some y) \<Rightarrow> char_of (16 * x + y) # percent_decode rest
         | _ \<Rightarrow> c # percent_decode (a # b # rest))
      else c # percent_decode (a # b # rest))"
| "percent_decode s = s"

definition demo_library :: library where
  "demo_library =
     \<lparr>unquote = percent_decode,
      guess_type = (\<lambda>p. ''application/octet-stream''),
      url_path = takeWhile (\<lambda>c. c \<noteq> CHR ''?'' \<and> c \<noteq> CHR ''#''),
      redirect_url = (\<lambda>p. p @ ''/''),
      list_directory =
        (\<lambda>w p. wfile_write [76]
                 (end_headers
                   (send_header ''Content-type'' ''text/html; charset=utf-8''
                     (send_response w 200)))),
      error_page = (\<lambda>code message. [69])\<rparr>"

definition demo_responder :: handler where
  "demo_responder = SimpleHTTPRequestHandler_do_GET demo_library"

section \<open>Properties\<close>

subsection \<open>The handler\<close>

lemma do_GET_artifact:
  assumes "path = ''/'' \<or> path = ''/index.html''"
    and "lookup w (html_path w) = Some (File content)"
  shows "do_GET super_do_GET w path =
           (\<lparr>status = 200,
             headers = [(''Server'', server_version w), (''Date'', clock w),
                        (''Content-type'', ''text/html'')],
             headers_done = True, body = content, raised = None\<rparr>, w)"
  using assms
  by (auto simp: do_GET_def os_path_exists_def open_rb_def send_response_def
      send_header_def end_headers_def wfile_write_def)



lemma do_GET_other:
  "path \<noteq> ''/'' \<Longrightarrow> path \<noteq> ''/index.html'' \<Longrightarrow>
   do_GET super_do_GET w path = (super_do_GET w path, w)"
  by (simp add: do_GET_def)

lemma do_GET_state: "snd (do_GET super_do_GET w path) = w"
  by (simp add: do_GET_def Let_def split: sum.splits)



subsection \<open>The static responder\<close>









lemma split_on_not_Nil: "split_on c s \<noteq> []"
  by (induction s) (auto split: list.splits)




subsection \<open>The serving loop\<close>


lemma serve_forever_waiting:
  "Interrupt \<notin> set evs \<Longrightarrow> snd (snd (serve_forever h w evs)) = False"
  by (induction h w evs rule: serve_forever.induct) (auto split: prod.splits)

lemma serve_forever_stopped:
  "Interrupt \<in> set evs \<Longrightarrow> snd (snd (serve_forever h w evs)) = True"
  by (induction h w evs rule: serve_forever.induct) (auto split: prod.splits)

lemma serve_forever_answered:
  "Interrupt \<notin> set evs \<Longrightarrow> answered (fst (serve_forever h w evs)) = requested evs"
  by (induction h w evs rule: serve_forever.induct) (auto split: prod.splits)

text \<open>For a handler that leaves the state of the process as it was.\<close>

lemma serve_forever_keeps:
  assumes "\<And>w path. snd (h w path) = w"
  shows "cwd (fst (snd (serve_forever h w evs))) = cwd w
       \<and> script (fst (snd (serve_forever h w evs))) = script w
       \<and> server_version (fst (snd (serve_forever h w evs))) = server_version w
       \<and> listening (fst (snd (serve_forever h w evs))) = listening w"
  using assms
proof (induction h w evs rule: serve_forever.induct)
  case (3 h w raw evs)
  obtain r w1 where h: "h w (parse_request raw) = (r, w1)"
    by (cases "h w (parse_request raw)")
  from 3(2) [of w "parse_request raw"] h have w1: "w1 = w" by simp
  from 3(1) [OF h [symmetric] 3(2)] w1 h show ?case
    by (simp add: case_prod_beta)
qed simp_all

lemma serve_forever_replies:
  assumes "\<And>w path. snd (h w path) = w"
    and "a \<in> set (fst (serve_forever h w evs))"
  shows "\<exists>raw w'. a = Reply raw (fst (h w' (parse_request raw))) \<and> cwd w' = cwd w"
  using assms
proof (induction h w evs rule: serve_forever.induct)
  case (3 h w raw evs)
  have s: "snd (h w (parse_request raw)) = w" by (rule 3(2))
  obtain r w1 where h: "h w (parse_request raw) = (r, w1)"
    by (cases "h w (parse_request raw)")
  with s have w1: "w1 = w" by simp
  from 3(3) h have "a = Reply raw r \<or> a \<in> set (fst (serve_forever h w1 evs))"
    by (auto split: prod.splits)
  then show ?case
  proof
    assume "a = Reply raw r"
    with h have "a = Reply raw (fst (h w (parse_request raw)))" by simp
    then show ?thesis by blast
  next
    assume "a \<in> set (fst (serve_forever h w1 evs))"
    from 3(1) [OF h [symmetric] 3(2) this] w1 show ?thesis by simp
  qed
next
  case (4 h w p n evs)
  then show ?case by fastforce
next
  case (5 h w now evs)
  then show ?case by fastforce
qed simp_all

lemma serve_forever_only_replies:
  assumes "\<And>w path. snd (h w path) = w"
  shows "Bind host port \<notin> set (fst (serve_forever h w evs))
       \<and> Print s \<notin> set (fst (serve_forever h w evs))
       \<and> OpenBrowser u \<notin> set (fst (serve_forever h w evs))
       \<and> Close \<notin> set (fst (serve_forever h w evs))"
  using serve_forever_replies [of h _ w evs, OF assms] by blast

subsection \<open>Paths\<close>




subsection \<open>The main block\<close>

lemma os_chdir_Inr: "os_chdir w p = Inr w1 \<Longrightarrow> w1 = w\<lparr>cwd := abs_path (cwd w) p\<rparr>"
  by (auto simp: os_chdir_def split: option.splits node.splits)





lemma main_serving:
  assumes "os_chdir w (os_path_dirname (script w)) = Inr w1"
    and "os_path_exists w1 (html_path w1)"
    and "\<not> port_busy w PORT"
  shows "main super_do_GET argv w evs =
     (let r = serve_forever (do_GET super_do_GET) (w1\<lparr>listening := Some ([], PORT)\<rparr>) evs;
          started = [Print line_title, Print line_starting, Print line_press,
                     OpenBrowser url, Bind [] PORT]
      in if snd (snd r)
         then \<lparr>outcome = Exit 0,
               trace = started @ fst r @ [Print line_shutdown, Close],
               state = server_close (fst (snd r))\<rparr>
         else \<lparr>outcome = Serving, trace = started @ fst r, state = fst (snd r)\<rparr>)"
proof -
  have "\<not> port_busy w1 PORT"
    using os_chdir_Inr [OF assms(1)] assms(3) by simp
  then show ?thesis
    using assms(1,2) by (simp add: main_def TCPServer_def Let_def split: prod.splits)
qed

lemma main_argv: "main super_do_GET argv w evs = main super_do_GET [] w evs"
  by (simp add: main_def)




subsection \<open>The browser\<close>










subsection \<open>The concrete installation\<close>

lemma demo_dirname: "os_path_dirname ''/repo/docs/view.py'' = ''/repo/docs''"
  by (simp add: os_path_dirname_def)

lemma demo_html_path: "html_path demo = ''/repo/docs/../dist/gitcells-docs.html''"
  by (simp add: html_path_def demo_def demo_dirname os_path_join_def)

lemma demo_serving_html_path:
  "html_path demo_serving = ''/repo/docs/../dist/gitcells-docs.html''"
  by (simp add: html_path_def demo_serving_def demo_def demo_dirname os_path_join_def)

lemma demo_serving_artifact:
  "lookup demo_serving (html_path demo_serving) = Some (File demo_html)"
  by (subst demo_serving_html_path)
    (simp add: lookup_def abs_path_def demo_serving_def demo_def demo_fs_def)






lemma demo_chdir:
  "os_chdir demo (os_path_dirname (script demo)) = Inr (demo\<lparr>cwd := ''/repo/docs''\<rparr>)"
proof -
  have "os_path_dirname (script demo) = ''/repo/docs''"
    by (simp add: demo_def demo_dirname)
  then show ?thesis
    by (simp add: os_chdir_def lookup_def abs_path_def demo_def demo_fs_def)
qed

lemma demo_started_artifact:
  "os_path_exists (demo\<lparr>cwd := ''/repo/docs''\<rparr>) (html_path (demo\<lparr>cwd := ''/repo/docs''\<rparr>))"
proof -
  have "html_path (demo\<lparr>cwd := ''/repo/docs''\<rparr>) = ''/repo/docs/../dist/gitcells-docs.html''"
    using demo_html_path by (simp add: html_path_def)
  then show ?thesis
    by (simp add: os_path_exists_def lookup_def abs_path_def demo_def demo_fs_def)
qed

lemma demo_port_free: "\<not> port_busy demo PORT"
  by (simp add: demo_def)




























lemma demo_translate_slashes:
  "translate_path demo_library demo_serving ''//'' = ''/repo/docs/''"
  by (simp add: translate_path_def demo_library_def demo_serving_def demo_def normpath_def
      normpath_step_def numeral_2_eq_2 rstrip_def isspace_def endswith_slash_def
      plain_name_def os_path_dirname_def os_path_join_def)








lemma demo_serving_listing:
  "body (demo_responder demo_serving ''//'') = [76]"
proof -
  have d: "os_path_isdir demo_serving ''/repo/docs/''"
    by (simp add: os_path_isdir_def lookup_def abs_path_def demo_serving_def demo_def
        demo_fs_def)
  have i: "\<not> os_path_isfile demo_serving (os_path_join ''/repo/docs/'' ''index.html'')"
    "\<not> os_path_isfile demo_serving (os_path_join ''/repo/docs/'' ''index.htm'')"
    by (simp_all add: os_path_isfile_def os_path_join_def lookup_def abs_path_def
        demo_serving_def demo_def demo_fs_def)
  have u: "endswith_slash (url_path demo_library ''//'')"
    by (simp add: demo_library_def endswith_slash_def)
  have "demo_responder demo_serving ''//'' =
          list_directory demo_library demo_serving ''/repo/docs/''"
    unfolding demo_responder_def SimpleHTTPRequestHandler_do_GET_def Let_def
      demo_translate_slashes
    using d i u by simp
  then show ?thesis
    by (simp add: demo_library_def wfile_write_def end_headers_def send_header_def
        send_response_def)
qed


section \<open>The claims\<close>















text \<open>
  C6. A process that starts binds port 8080, the constant \<open>PORT\<close>, on the empty host
  name, which stands for all interfaces, and binds nothing else; the command line makes
  no difference to the run; as long as no interrupt arrives the process stays in its
  serving loop, with the socket open and every request answered, and once an interrupt
  has arrived it has left with status 0.
\<close>

theorem main_binds_port_8080:
  assumes "os_chdir w (os_path_dirname (script w)) = Inr w1"
    and "os_path_exists w1 (html_path w1)"
    and "\<not> port_busy w PORT"
  shows "PORT = 8080
       \<and> take 5 (trace (main super_do_GET argv w evs)) =
           [Print line_title, Print line_starting, Print line_press,
            OpenBrowser url, Bind [] 8080]
       \<and> (\<forall>host port. Bind host port \<in> set (trace (main super_do_GET argv w evs)) \<longrightarrow>
             host = [] \<and> port = 8080)
       \<and> main super_do_GET argv w evs = main super_do_GET [] w evs
       \<and> (Interrupt \<notin> set evs \<longrightarrow>
             outcome (main super_do_GET argv w evs) = Serving
           \<and> listening (state (main super_do_GET argv w evs)) = Some ([], 8080)
           \<and> answered (trace (main super_do_GET argv w evs)) = requested evs)
       \<and> (Interrupt \<in> set evs \<longrightarrow> outcome (main super_do_GET argv w evs) = Exit 0)"
proof -
  note m = main_serving [OF assms, of super_do_GET argv evs]
  have 1: "PORT = 8080" by (simp add: PORT_def)
  have 2: "take 5 (trace (main super_do_GET argv w evs)) =
           [Print line_title, Print line_starting, Print line_press,
            OpenBrowser url, Bind [] 8080]"
    by (simp add: m Let_def 1)
  have 3: "\<forall>host port. Bind host port \<in> set (trace (main super_do_GET argv w evs)) \<longrightarrow>
             host = [] \<and> port = 8080"
    by (simp add: m Let_def 1 serve_forever_only_replies [of "do_GET super_do_GET", OF do_GET_state])
  have 4: "Interrupt \<notin> set evs \<longrightarrow>
             outcome (main super_do_GET argv w evs) = Serving
           \<and> listening (state (main super_do_GET argv w evs)) = Some ([], 8080)
           \<and> answered (trace (main super_do_GET argv w evs)) = requested evs"
    by (simp add: m Let_def 1 serve_forever_waiting serve_forever_keeps [of "do_GET super_do_GET", OF do_GET_state]
        serve_forever_answered)
  have 5: "Interrupt \<in> set evs \<longrightarrow> outcome (main super_do_GET argv w evs) = Exit 0"
    by (simp add: m Let_def serve_forever_stopped)
  from 1 2 3 4 5 main_argv show ?thesis by blast
qed

theorem main_binds_port_8080_witness:
  "take 5 (trace (main demo_responder [''--port'', ''9000''] demo
                    [Request ''/'', Request ''/view.py''])) =
      [Print line_title, Print line_starting, Print line_press,
       OpenBrowser url, Bind [] 8080]
   \<and> main demo_responder [''--port'', ''9000''] demo [Request ''/'', Request ''/view.py''] =
       main demo_responder [] demo [Request ''/'', Request ''/view.py'']
   \<and> outcome (main demo_responder [''--port'', ''9000''] demo
                 [Request ''/'', Request ''/view.py'']) = Serving
   \<and> answered (trace (main demo_responder [''--port'', ''9000''] demo
                          [Request ''/'', Request ''/view.py''])) = [''/'', ''/view.py'']"
proof -
  have i: "Interrupt \<notin> set [Request ''/'', Request ''/view.py'']" by simp
  have r: "requested [Request ''/'', Request ''/view.py''] = [''/'', ''/view.py'']" by simp
  from main_binds_port_8080 [OF demo_chdir demo_started_artifact demo_port_free,
      of demo_responder "[''--port'', ''9000'']" "[Request ''/'', Request ''/view.py'']"] i r
  show ?thesis by metis
qed






text \<open>
  C9, as stated, fails: a GET request for \<open>//\<close> gets the artifact, not the answer of the
  static responder (here the listing of the directory), because the library reduces the
  leading slashes of the request path to one before the handler compares it.
\<close>

theorem do_GET_double_slash_counterexample:
  "fst (serve_forever (do_GET demo_responder) demo_serving [Request ''//'']) =
     [Reply ''//''
        \<lparr>status = 200,
         headers = [(''Server'', ''SimpleHTTP/0.6 Python/3.12.3''),
                    (''Date'', ''Tue, 03 Nov 2026 17:08:00 GMT''),
                    (''Content-type'', ''text/html'')],
         headers_done = True, body = [60, 104, 49, 62, 255, 0, 10], raised = None\<rparr>]
   \<and> body (demo_responder demo_serving ''//'') = [76]"
proof -
  have p: "parse_request ''//'' = ''/''"
    by (simp add: parse_request_def)
  have i: "''/'' = ''/'' \<or> ''/'' = ''/index.html''" by simp
  have "fst (serve_forever (do_GET demo_responder) demo_serving [Request ''//'']) =
     [Reply ''//''
        \<lparr>status = 200,
         headers = [(''Server'', ''SimpleHTTP/0.6 Python/3.12.3''),
                    (''Date'', ''Tue, 03 Nov 2026 17:08:00 GMT''),
                    (''Content-type'', ''text/html'')],
         headers_done = True, body = [60, 104, 49, 62, 255, 0, 10], raised = None\<rparr>]"
    by (simp add: p do_GET_artifact [OF i demo_serving_artifact])
      (simp add: demo_serving_def demo_def demo_html_def)
  with demo_serving_listing show ?thesis by simp
qed

text \<open>
  C9, amended. The routing compares \<open>self.path\<close> by equality of strings: every value
  other than the two literals \<open>/\<close> and \<open>/index.html\<close> goes to the static responder. The
  request paths \<open>/?q=1\<close>, \<open>/index.html?x=1\<close> and \<open>/INDEX.HTML\<close> reach the handler as they
  were sent and are answered by the static responder; a request path that starts with
  two slashes reaches it with its leading slashes reduced to one, so that \<open>//\<close> is
  answered as \<open>/\<close> is.
\<close>

theorem do_GET_exact_match:
  "(path \<noteq> ''/'' \<and> path \<noteq> ''/index.html'' \<longrightarrow>
      do_GET super_do_GET w path = (super_do_GET w path, w))
   \<and> serve_forever (do_GET super_do_GET) w [Request ''/?q=1''] =
       ([Reply ''/?q=1'' (super_do_GET w ''/?q=1'')], w, False)
   \<and> serve_forever (do_GET super_do_GET) w [Request ''/index.html?x=1''] =
       ([Reply ''/index.html?x=1'' (super_do_GET w ''/index.html?x=1'')], w, False)
   \<and> serve_forever (do_GET super_do_GET) w [Request ''/INDEX.HTML''] =
       ([Reply ''/INDEX.HTML'' (super_do_GET w ''/INDEX.HTML'')], w, False)
   \<and> (take 2 raw = ''//'' \<longrightarrow>
        parse_request raw = CHR ''/'' # dropWhile (\<lambda>c. c = CHR ''/'') raw)
   \<and> (take 2 raw \<noteq> ''//'' \<longrightarrow> parse_request raw = raw)
   \<and> fst (serve_forever (do_GET super_do_GET) w [Request raw]) =
       [Reply raw (fst (do_GET super_do_GET w (parse_request raw)))]
   \<and> fst (serve_forever (do_GET super_do_GET) w [Request ''//'']) =
       [Reply ''//'' (fst (do_GET super_do_GET w ''/''))]"
proof -
  have v: "parse_request ''/?q=1'' = ''/?q=1''"
    "parse_request ''/index.html?x=1'' = ''/index.html?x=1''"
    "parse_request ''/INDEX.HTML'' = ''/INDEX.HTML''"
    "parse_request ''//'' = ''/''"
    by (simp_all add: parse_request_def)
  have d: "do_GET super_do_GET w ''/?q=1'' = (super_do_GET w ''/?q=1'', w)"
    "do_GET super_do_GET w ''/index.html?x=1'' = (super_do_GET w ''/index.html?x=1'', w)"
    "do_GET super_do_GET w ''/INDEX.HTML'' = (super_do_GET w ''/INDEX.HTML'', w)"
    by (simp_all add: do_GET_def)
  have s: "snd (do_GET super_do_GET w (parse_request raw)) = w"
    "snd (do_GET super_do_GET w ''/'') = w"
    by (rule do_GET_state)+
  show ?thesis
    by (simp add: v d do_GET_other parse_request_def case_prod_beta)
qed

theorem do_GET_exact_match_witness:
  "''/index.htm'' \<noteq> ''/'' \<and> ''/index.htm'' \<noteq> ''/index.html''
   \<and> do_GET demo_responder demo_serving ''/index.htm'' =
       (demo_responder demo_serving ''/index.htm'', demo_serving)
   \<and> take 2 ''//index.html'' = ''//''
   \<and> parse_request ''//index.html'' = ''/index.html''
   \<and> fst (serve_forever (do_GET demo_responder) demo_serving [Request ''//'']) =
       [Reply ''//'' (fst (do_GET demo_responder demo_serving ''/''))]"
  using do_GET_exact_match [of "''/index.htm''" demo_responder demo_serving "''//index.html''"]
  by simp



end
